theory Spec2Isabelle
  imports Main "HOL-Library.Multiset" "HOL-Library.AList" "HOL-Library.Char_ord"
    "HOL-Library.List_Lexorder"
begin

section \<open>Python values and errors\<close>

text \<open>
  Exceptions are values. \<open>HTTPException\<close> carries the status code and the detail of
  FastAPI's exception; the others are the Python exceptions that the handlers let escape
  (FastAPI answers them with status 500).
\<close>

datatype py_error =
    HTTPException nat string
  | KeyError string
  | TypeError
  | AttributeError
  | IndexError
  | JSONDecodeError
  | SqliteIntegrityError
  | SqliteBindingError
  | OverflowError
  | UpstreamError string

section \<open>Strings\<close>

text \<open>
  A Python \<open>str\<close> is modelled as a \<open>string\<close>; a \<open>char\<close> stands for a code point
  below 256, and the character classes below are Python's, restricted to that range.
\<close>

definition isdigit :: "char \<Rightarrow> bool" where
  "isdigit c = (let n = (of_char c :: nat) in
     (48 \<le> n \<and> n \<le> 57) \<or> n = 178 \<or> n = 179 \<or> n = 185)"

definition isspace :: "char \<Rightarrow> bool" where
  "isspace c = (let n = (of_char c :: nat) in
     (9 \<le> n \<and> n \<le> 13) \<or> (28 \<le> n \<and> n \<le> 32) \<or> n = 133 \<or> n = 160)"

definition is_linebreak :: "char \<Rightarrow> bool" where
  "is_linebreak c = (let n = (of_char c :: nat) in
     (10 \<le> n \<and> n \<le> 13) \<or> (28 \<le> n \<and> n \<le> 30) \<or> n = 133)"

text \<open>\<open>str.strip()\<close>: whitespace removed at both ends.\<close>

definition strip :: "string \<Rightarrow> string" where
  "strip s = rev (dropWhile isspace (rev (dropWhile isspace s)))"

text \<open>
  \<open>str.splitlines()\<close>: the text is cut at every line boundary, \<open>\r\n\<close> counting as
  one; the boundaries are dropped and a boundary at the very end opens no further line.
  \<open>cur\<close> is the line read so far.
\<close>

fun splitlines_from :: "string \<Rightarrow> string \<Rightarrow> string list" where
  "splitlines_from cur [] = (if cur = [] then [] else [cur])"
| "splitlines_from cur (c # cs) =
     (if c = CHR 0x0D \<and> cs \<noteq> [] \<and> hd cs = CHR 0x0A then cur # splitlines_from [] (tl cs)
      else if is_linebreak c then cur # splitlines_from [] cs
      else splitlines_from (cur @ [c]) cs)"

definition splitlines :: "string \<Rightarrow> string list" where
  "splitlines s = splitlines_from [] s"

text \<open>
  \<open>s.split(sep, 1)\<close> for a separator of one character: the part before the first
  separator and the part after it, or \<open>s\<close> alone when there is no separator.
\<close>

definition split1 :: "char \<Rightarrow> string \<Rightarrow> string list" where
  "split1 sep s =
     (if sep \<in> set s then [takeWhile (\<lambda>c. c \<noteq> sep) s, tl (dropWhile (\<lambda>c. c \<noteq> sep) s)]
      else [s])"

text \<open>\<open>xs[i]\<close> for \<open>i \<ge> 0\<close>: IndexError out of range.\<close>

definition index :: "'a list \<Rightarrow> nat \<Rightarrow> py_error + 'a" where
  "index xs i = (if i < length xs then Inr (xs ! i) else Inl IndexError)"

text \<open>\<open>str(n)\<close> for an integer: decimal digits, with a minus sign when negative.\<close>

fun str_nat :: "nat \<Rightarrow> string" where
  "str_nat n =
     (if n < 10 then [''0123456789'' ! n]
      else str_nat (n div 10) @ [''0123456789'' ! (n mod 10)])"

definition str_int :: "int \<Rightarrow> string" where
  "str_int i = (if i < 0 then CHR ''-'' # str_nat (nat (- i)) else str_nat (nat i))"

section \<open>Progress-step generator (agentd_backend/progress_gemini.py)\<close>

definition system_prompt :: "string \<Rightarrow> int \<Rightarrow> string" where
  "system_prompt prompt max_steps =
     [CHR 0x0A] @ ''You are generating UI progress updates for a web automation agent.''
     @ [CHR 0x0A, CHR 0x0A] @ ''Task:''
     @ [CHR 0x0A] @ prompt
     @ [CHR 0x0A, CHR 0x0A] @ ''Rules:''
     @ [CHR 0x0A] @ ''- Generate '' @ str_int max_steps @ '' short progress steps''
     @ [CHR 0x0A] @ ''- Steps should look realistic for browser-based automation''
     @ [CHR 0x0A] @ ''- Do NOT include results''
     @ [CHR 0x0A] @ ''- Each step should be one short sentence''
     @ [CHR 0x0A] @ ''- Output as a numbered list only''
     @ [CHR 0x0A]"

text \<open>
  The loop of lines 29 to 36 over the lines of the response: \<open>steps\<close> is the list
  built so far, and the IndexError of \<open>line.split(".", 1)[1]\<close> leaves the loop.
\<close>

fun collect_steps :: "string list \<Rightarrow> string list \<Rightarrow> py_error + string list" where
  "collect_steps [] steps = Inr steps"
| "collect_steps (line # rest) steps =
     (let line = strip line in
      if line \<noteq> [] \<and> isdigit (hd line) then
        (case index (split1 CHR ''.'' line) 1 of
           Inl e \<Rightarrow> Inl e
         | Inr s \<Rightarrow> collect_steps rest (steps @ [strip s]))
      else collect_steps rest steps)"

definition parse_response :: "string \<Rightarrow> py_error + string list" where
  "parse_response text = collect_steps (splitlines text) []"

text \<open>
  \<open>generate_content\<close> is the call to the external model (given the model name and the
  contents, it returns the text of the response or raises): a parameter of the function.
\<close>

definition generate_progress_steps ::
  "(string \<Rightarrow> string \<Rightarrow> py_error + string) \<Rightarrow> string \<Rightarrow> int \<Rightarrow> py_error + string list" where
  "generate_progress_steps generate_content prompt max_steps =
     (case generate_content ''gemini-2.5-flash'' (system_prompt prompt max_steps) of
        Inl e \<Rightarrow> Inl e
      | Inr text \<Rightarrow> parse_response text)"

subsection \<open>Numbered-list responses, as the specification words them\<close>

text \<open>
  These definitions are not code: they say what a numbered-list response is. A marker is
  a run of decimal digits followed by a full stop. A line is well formed when, stripped,
  it is empty, or does not begin with a digit, or is a marker followed by a text that is
  not blank. \<open>item_text\<close> is what follows the marker, stripped.
\<close>

definition ascii_digit :: "char \<Rightarrow> bool" where
  "ascii_digit c = (let n = (of_char c :: nat) in 48 \<le> n \<and> n \<le> 57)"

definition has_marker :: "string \<Rightarrow> bool" where
  "has_marker s =
     (let ds = takeWhile ascii_digit s; rest = dropWhile ascii_digit s in
      ds \<noteq> [] \<and> rest \<noteq> [] \<and> hd rest = CHR ''.'')"

definition blank :: "string \<Rightarrow> bool" where
  "blank s = list_all isspace s"

definition item_text :: "string \<Rightarrow> string" where
  "item_text s = strip (tl (dropWhile ascii_digit s))"

definition wellformed_line :: "string \<Rightarrow> bool" where
  "wellformed_line l =
     (let s = strip l in
      s = [] \<or> \<not> isdigit (hd s) \<or>
      (has_marker s \<and> \<not> blank (tl (dropWhile ascii_digit s))))"

definition wellformed_response :: "string \<Rightarrow> bool" where
  "wellformed_response text = list_all wellformed_line (splitlines text)"

text \<open>The lines of a response that begin, once stripped, with a digit.\<close>

definition numbered :: "string \<Rightarrow> bool" where
  "numbered l = (strip l \<noteq> [] \<and> isdigit (hd (strip l)))"

definition numbered_lines :: "string \<Rightarrow> string list" where
  "numbered_lines text = filter numbered (splitlines text)"

text \<open>A model that answers every request with the same text.\<close>

definition reply :: "string \<Rightarrow> string \<Rightarrow> string \<Rightarrow> py_error + string" where
  "reply text model contents = Inr text"

section \<open>JSON values\<close>

text \<open>
  What \<open>json.load\<close> returns and \<open>json.dump\<close> writes. A dict is the list of its items in
  insertion order. A float is kept by sign, mantissa and binary exponent; no arithmetic is
  done on it, only the test for zero of Python's truth value.
\<close>

datatype pyfloat = Finite bool nat int | Infinity bool | NaN

datatype json =
    JNull
  | JBool bool
  | JInt int
  | JFloat pyfloat
  | JStr string
  | JArr "json list"
  | JObj "(string \<times> json) list"

text \<open>Python's truth value, as \<open>not x\<close> tests it.\<close>

fun truthy :: "json \<Rightarrow> bool" where
  "truthy JNull = False"
| "truthy (JBool b) = b"
| "truthy (JInt n) = (n \<noteq> 0)"
| "truthy (JFloat (Finite s m e)) = (m \<noteq> 0)"
| "truthy (JFloat (Infinity s)) = True"
| "truthy (JFloat NaN) = True"
| "truthy (JStr s) = (s \<noteq> [])"
| "truthy (JArr xs) = (xs \<noteq> [])"
| "truthy (JObj kvs) = (kvs \<noteq> [])"

text \<open>\<open>d.get(k, default)\<close> on a dict.\<close>

definition dict_get :: "(string \<times> json) list \<Rightarrow> string \<Rightarrow> json \<Rightarrow> json" where
  "dict_get d k dflt = (case map_of d k of None \<Rightarrow> dflt | Some v \<Rightarrow> v)"

text \<open>\<open>x.get(k, default)\<close> on any value: only a dict has the method.\<close>

fun value_get :: "json \<Rightarrow> string \<Rightarrow> json \<Rightarrow> py_error + json" where
  "value_get (JObj d) k dflt = Inr (dict_get d k dflt)"
| "value_get _ k dflt = Inl AttributeError"

text \<open>\<open>x[k]\<close> with a string key: KeyError on a dict without the key, TypeError elsewhere.\<close>

fun getitem :: "json \<Rightarrow> string \<Rightarrow> py_error + json" where
  "getitem (JObj d) k = (case map_of d k of None \<Rightarrow> Inl (KeyError k) | Some v \<Rightarrow> Inr v)"
| "getitem _ k = Inl TypeError"

text \<open>
  \<open>x[k] = v\<close> with a string key: a dict keeps the place of a key it has and puts a new
  key last; any other value raises TypeError.
\<close>

fun setitem :: "json \<Rightarrow> string \<Rightarrow> json \<Rightarrow> py_error + json" where
  "setitem (JObj d) k v = Inr (JObj (AList.update k v d))"
| "setitem _ k v = Inl TypeError"

definition startswith :: "string \<Rightarrow> string \<Rightarrow> bool" where
  "startswith s p = (take (length p) s = p)"

section \<open>Zapier MCP configuration (app.py, lines 135 to 157)\<close>

text \<open>
  The file \<open>browser_mcp.json\<close>: absent, or holding a text that \<open>json.load\<close> rejects, or
  holding a JSON document. Writing a document and loading it again gives the document.
\<close>

datatype config_file = NoFile | Garbled string | Holds json

definition get_zapier_mcp :: "config_file \<Rightarrow> py_error + json" where
  "get_zapier_mcp file =
     (case file of
        NoFile \<Rightarrow> Inr (JObj [(''url'', JStr [])])
      | Garbled raw \<Rightarrow> Inl JSONDecodeError
      | Holds config \<Rightarrow>
          (case value_get config ''mcpServers'' (JObj []) of
             Inl e \<Rightarrow> Inl e
           | Inr servers \<Rightarrow>
               (case value_get servers ''zapier'' (JObj []) of
                  Inl e \<Rightarrow> Inl e
                | Inr zapier \<Rightarrow>
                    (case value_get zapier ''url'' (JStr []) of
                       Inl e \<Rightarrow> Inl e
                     | Inr url \<Rightarrow> Inr (JObj [(''url'', url)])))))"

definition zapier_prefix :: string where
  "zapier_prefix = ''https://actions.zapier.com/mcp/''"

text \<open>Line 152: the document of the file, or the default when there is no file.\<close>

definition load_config :: "config_file \<Rightarrow> py_error + json" where
  "load_config file =
     (case file of
        NoFile \<Rightarrow> Inr (JObj [(''mcpServers'', JObj [])])
      | Garbled raw \<Rightarrow> Inl JSONDecodeError
      | Holds config \<Rightarrow> Inr config)"

text \<open>
  Line 153, \<open>config["mcpServers"]["zapier"] = {"url": url}\<close>: the inner dict is changed
  in place, so the document holds the changed dict under the same key.
\<close>

definition set_zapier :: "json \<Rightarrow> string \<Rightarrow> py_error + json" where
  "set_zapier config url =
     (case getitem config ''mcpServers'' of
        Inl e \<Rightarrow> Inl e
      | Inr servers \<Rightarrow>
          (case setitem servers ''zapier'' (JObj [(''url'', JStr url)]) of
             Inl e \<Rightarrow> Inl e
           | Inr servers' \<Rightarrow> setitem config ''mcpServers'' servers'))"

text \<open>
  The handler returns its response or the exception it raises, and the file as it leaves
  it. A \<open>url\<close> that is not a string has no \<open>startswith\<close>.
\<close>

definition update_zapier_mcp ::
  "(string \<times> json) list \<Rightarrow> config_file \<Rightarrow> (py_error + json) \<times> config_file" where
  "update_zapier_mcp payload file =
     (case dict_get payload ''url'' (JStr []) of
        JStr url \<Rightarrow>
          if \<not> startswith url zapier_prefix
          then (Inl (HTTPException 400 ''Invalid Zapier URL format''), file)
          else
            (case load_config file of
               Inl e \<Rightarrow> (Inl e, file)
             | Inr config \<Rightarrow>
                 (case set_zapier config url of
                    Inl e \<Rightarrow> (Inl e, file)
                  | Inr config' \<Rightarrow>
                      (Inr (JObj [(''status'', JStr ''success''), (''url'', JStr url)]),
                       Holds config')))
      | _ \<Rightarrow> (Inl AttributeError, file))"

text \<open>
  The file has the layout of the external interface when it is absent or holds a dict
  with a dict under \<open>mcpServers\<close>.
\<close>

fun conforming :: "config_file \<Rightarrow> bool" where
  "conforming NoFile = True"
| "conforming (Garbled raw) = False"
| "conforming (Holds (JObj d)) =
     (case map_of d ''mcpServers'' of Some (JObj servers) \<Rightarrow> True | _ \<Rightarrow> False)"
| "conforming (Holds _) = False"

text \<open>The items of a dict under every key but one.\<close>

definition without :: "string \<Rightarrow> (string \<times> json) list \<Rightarrow> (string \<times> json) list" where
  "without k d = filter (\<lambda>kv. fst kv \<noteq> k) d"

section \<open>Agent tasks (app.py, lines 159 to 182)\<close>

text \<open>
  A value bound to a statement parameter. The \<open>sqlite3\<close> module binds None, integers of
  64 bits, floats (NaN as NULL) and strings; it refuses lists and dicts. A row keeps the
  values as they were bound: the conversion of a number stored in a TEXT column is not
  modelled.
\<close>

datatype sqlval = SqlNull | SqlInt int | SqlReal pyfloat | SqlText string

fun bind_param :: "json \<Rightarrow> py_error + sqlval" where
  "bind_param JNull = Inr SqlNull"
| "bind_param (JBool b) = Inr (SqlInt (if b then 1 else 0))"
| "bind_param (JInt n) =
     (if - (2 ^ 63) \<le> n \<and> n < 2 ^ 63 then Inr (SqlInt n) else Inl OverflowError)"
| "bind_param (JFloat NaN) = Inr SqlNull"
| "bind_param (JFloat f) = Inr (SqlReal f)"
| "bind_param (JStr s) = Inr (SqlText s)"
| "bind_param (JArr xs) = Inl SqliteBindingError"
| "bind_param (JObj kvs) = Inl SqliteBindingError"

text \<open>
  A row of \<open>agent_tasks\<close>. \<open>created_at\<close> is the CURRENT_TIMESTAMP of the insertion, which
  has a resolution of one second: it is kept as a number of seconds.
\<close>

record agent_task =
  task_id :: string
  task_name :: sqlval
  description :: sqlval
  task :: sqlval
  created_at :: int
  last_result :: sqlval

text \<open>The table, in the order of insertion.\<close>

type_synonym db = "agent_task list"

text \<open>
  Lines 178 and 179: the parameters are bound, then the row is inserted unless \<open>name\<close>
  or \<open>task\<close> is NULL (both columns are NOT NULL) or its primary key is already in the
  table. \<open>current_timestamp\<close> is the clock of the database at the insertion, in seconds.
\<close>

definition insert_agent_task ::
  "string \<Rightarrow> json \<Rightarrow> json \<Rightarrow> json \<Rightarrow> int \<Rightarrow> db \<Rightarrow> py_error + db" where
  "insert_agent_task tid name descr tsk current_timestamp tasks =
     (case bind_param name of
        Inl e \<Rightarrow> Inl e
      | Inr n \<Rightarrow>
          (case bind_param descr of
             Inl e \<Rightarrow> Inl e
           | Inr d \<Rightarrow>
               (case bind_param tsk of
                  Inl e \<Rightarrow> Inl e
                | Inr t \<Rightarrow>
                    if n = SqlNull \<or> t = SqlNull then Inl SqliteIntegrityError
                    else if tid \<in> set (map task_id tasks) then Inl SqliteIntegrityError
                    else Inr (tasks @
                      [\<lparr>task_id = tid, task_name = n, description = d, task = t,
                        created_at = current_timestamp, last_result = SqlNull\<rparr>]))))"

text \<open>
  \<open>utc_ms\<close> is the value of \<open>int(datetime.utcnow().timestamp() * 1000)\<close> when the
  handler runs: the clock is an input of the handler.
\<close>

definition new_task_id :: "int \<Rightarrow> string" where
  "new_task_id utc_ms = ''task_'' @ str_int utc_ms"

definition create_agent_task ::
  "(string \<times> json) list \<Rightarrow> int \<Rightarrow> int \<Rightarrow> db \<Rightarrow> (py_error + json) \<times> db" where
  "create_agent_task payload utc_ms current_timestamp tasks =
     (let name = dict_get payload ''name'' JNull; tsk = dict_get payload ''task'' JNull in
      if \<not> truthy name \<or> \<not> truthy tsk
      then (Inl (HTTPException 400 ''Name and task are required''), tasks)
      else
        (let tid = new_task_id utc_ms in
         case insert_agent_task tid name (dict_get payload ''description'' JNull) tsk
                current_timestamp tasks of
           Inl e \<Rightarrow> (Inl e, tasks)
         | Inr tasks' \<Rightarrow>
             (Inr (JObj [(''id'', JStr tid), (''status'', JStr ''created'')]), tasks')))"

text \<open>
  Lines 164 and 165: \<open>SELECT ... ORDER BY created_at DESC\<close>. SQL fixes the order of the
  rows by \<open>created_at\<close> only, so \<open>get_agent_tasks tasks out\<close> says that \<open>out\<close> is a
  listing the query may return: the rows of the table, latest \<open>created_at\<close> first.
\<close>

definition get_agent_tasks :: "db \<Rightarrow> agent_task list \<Rightarrow> bool" where
  "get_agent_tasks tasks out =
     (mset out = mset tasks \<and> sorted_wrt (\<lambda>a b. created_at b \<le> created_at a) out)"

section \<open>Periodic metrics logger (app.py, lines 65 to 71)\<close>

text \<open>
  \<open>log_system_metrics\<close> is not part of the sources: what a call of it does is an input.
  It returns, or raises an instance of \<open>Exception\<close> (with the text that \<open>str\<close> gives), or
  raises something that is not an \<open>Exception\<close> (KeyboardInterrupt, SystemExit), which
  \<open>except Exception\<close> lets through.
\<close>

datatype outcome = Returns | Raises string | RaisesBaseException string

record logger_state =
  printed :: "string list"
  sleeps :: "nat list"

text \<open>
  One pass through the body of the loop: the exception that leaves it, or the state after
  the sleep.
\<close>

definition logger_iteration :: "nat \<Rightarrow> outcome \<Rightarrow> logger_state \<Rightarrow> string + logger_state" where
  "logger_iteration interval_seconds oc st =
     (case oc of
        Returns \<Rightarrow> Inr (st\<lparr>sleeps := sleeps st @ [interval_seconds]\<rparr>)
      | Raises e \<Rightarrow>
          Inr (st\<lparr>printed := printed st @ [''[Periodic Logger] Error: '' @ e],
                  sleeps := sleeps st @ [interval_seconds]\<rparr>)
      | RaisesBaseException e \<Rightarrow> Inl e)"

text \<open>
  The loop \<open>while True\<close>, run against the outcomes of the first calls of
  \<open>log_system_metrics\<close>: \<open>Inl\<close> when an exception has left the loop, \<open>Inr\<close> with the
  state reached when the loop is still running after all of them.
\<close>

fun periodic_metrics_logger ::
  "nat \<Rightarrow> outcome list \<Rightarrow> logger_state \<Rightarrow> string + logger_state" where
  "periodic_metrics_logger interval_seconds [] st = Inr st"
| "periodic_metrics_logger interval_seconds (oc # ocs) st =
     (case logger_iteration interval_seconds oc st of
        Inl e \<Rightarrow> Inl e
      | Inr st' \<Rightarrow> periodic_metrics_logger interval_seconds ocs st')"

text \<open>Line 77: the task that \<open>lifespan\<close> starts.\<close>

definition background_logger :: "outcome list \<Rightarrow> string + logger_state" where
  "background_logger ocs = periodic_metrics_logger 60 ocs \<lparr>printed = [], sleeps = []\<rparr>"

text \<open>The report printed for each outcome that is a caught exception.\<close>

fun reports :: "outcome list \<Rightarrow> string list" where
  "reports [] = []"
| "reports (Raises e # ocs) = (''[Periodic Logger] Error: '' @ e) # reports ocs"
| "reports (oc # ocs) = reports ocs"

fun caught :: "outcome \<Rightarrow> bool" where
  "caught (RaisesBaseException e) = False"
| "caught oc = True"

section \<open>Properties of the progress-step generator\<close>

lemma ascii_digit_not_dot: "ascii_digit c \<Longrightarrow> c \<noteq> CHR ''.''"
  by (auto simp: ascii_digit_def)

lemma dropWhile_prefix:
  "\<forall>c\<in>set ds. P c \<Longrightarrow> \<not> P y \<Longrightarrow> dropWhile P (ds @ y # b) = y # b"
  by (induction ds) auto

lemma has_marker_decomp:
  assumes "has_marker s"
  obtains ds body where "s = ds @ CHR ''.'' # body" "ds \<noteq> []" "\<forall>c\<in>set ds. ascii_digit c"
    "dropWhile ascii_digit s = CHR ''.'' # body"
proof -
  let ?ds = "takeWhile ascii_digit s" and ?r = "dropWhile ascii_digit s"
  from assms have ne: "?ds \<noteq> []" and r: "?r \<noteq> []" and h: "hd ?r = CHR ''.''"
    by (simp_all add: has_marker_def Let_def)
  from r h have r': "?r = CHR ''.'' # tl ?r" by (cases ?r) auto
  have "s = ?ds @ ?r" by simp
  with r' have "s = ?ds @ CHR ''.'' # tl ?r" by simp
  moreover have "\<forall>c\<in>set ?ds. ascii_digit c" by (auto dest: set_takeWhileD)
  ultimately show ?thesis using that ne r' by blast
qed

text \<open>On a line that begins with a marker, \<open>split(".", 1)[1]\<close> is what follows the marker.\<close>

lemma split1_marker:
  assumes "has_marker s"
  shows "index (split1 CHR ''.'' s) (Suc 0) = Inr (tl (dropWhile ascii_digit s))"
proof -
  from assms obtain ds body where s: "s = ds @ CHR ''.'' # body"
    and dg: "\<forall>c\<in>set ds. ascii_digit c" and d: "dropWhile ascii_digit s = CHR ''.'' # body"
    by (rule has_marker_decomp)
  from dg have nd: "\<forall>c\<in>set ds. c \<noteq> CHR ''.''" by (auto dest: ascii_digit_not_dot)
  have "dropWhile (\<lambda>c. c \<noteq> CHR ''.'') s = CHR ''.'' # body"
    by (subst s) (rule dropWhile_prefix, use nd in auto)
  moreover have "CHR ''.'' \<in> set s" by (subst s) simp
  ultimately show ?thesis using d by (simp add: split1_def index_def)
qed

text \<open>Stripping leaves nothing exactly when the text is blank.\<close>

lemma strip_empty_iff: "strip s = [] \<longleftrightarrow> blank s"
proof
  assume "strip s = []"
  then have "dropWhile isspace (rev (dropWhile isspace s)) = []"
    by (simp add: strip_def)
  then have a: "\<forall>c\<in>set (dropWhile isspace s). isspace c"
    by (simp add: dropWhile_eq_Nil_conv)
  have "dropWhile isspace s = []"
  proof (rule ccontr)
    assume n: "dropWhile isspace s \<noteq> []"
    then have "\<not> isspace (hd (dropWhile isspace s))" by (rule hd_dropWhile)
    moreover from n have "hd (dropWhile isspace s) \<in> set (dropWhile isspace s)" by simp
    ultimately show False using a by blast
  qed
  then show "blank s" by (simp add: blank_def dropWhile_eq_Nil_conv list_all_iff)
next
  assume "blank s"
  then have d: "dropWhile isspace s = []"
    by (simp add: blank_def dropWhile_eq_Nil_conv list_all_iff)
  show "strip s = []" unfolding strip_def d by simp
qed

lemma collect_steps_wellformed:
  "list_all wellformed_line ls \<Longrightarrow>
   collect_steps ls acc = Inr (acc @ map (\<lambda>l. item_text (strip l)) (filter numbered ls))"
proof (induction ls arbitrary: acc)
  case Nil
  then show ?case by simp
next
  case (Cons l ls)
  show ?case
  proof (cases "numbered l")
    case True
    with Cons.prems have m: "has_marker (strip l)"
      by (auto simp: wellformed_line_def numbered_def Let_def)
    from True m Cons show ?thesis
      by (simp add: Let_def numbered_def split1_marker item_text_def)
  next
    case False
    with Cons show ?thesis by (auto simp: Let_def numbered_def)
  qed
qed

text \<open>
  A numbered line of a well-formed response is a marker and a text, and its entry is the
  text, stripped, which is not empty.
\<close>

lemma wellformed_numbered_line:
  assumes "wellformed_line l" and "numbered l"
  shows "item_text (strip l) \<noteq> []
       \<and> (\<exists>ds rest. strip l = ds @ CHR ''.'' # rest \<and> ds \<noteq> [] \<and> list_all ascii_digit ds
             \<and> item_text (strip l) = strip rest)"
proof -
  from assms have m: "has_marker (strip l)"
    and nb: "\<not> blank (tl (dropWhile ascii_digit (strip l)))"
    by (auto simp: wellformed_line_def numbered_def Let_def)
  from m obtain ds body where "strip l = ds @ CHR ''.'' # body" "ds \<noteq> []"
    "\<forall>c\<in>set ds. ascii_digit c" "dropWhile ascii_digit (strip l) = CHR ''.'' # body"
    by (rule has_marker_decomp)
  moreover from nb have "item_text (strip l) \<noteq> []"
    by (simp add: item_text_def strip_empty_iff)
  ultimately show ?thesis
    by (auto simp: item_text_def list_all_iff)
qed

lemma wellformed_entries:
  "list_all wellformed_line ls \<Longrightarrow>
   list_all2 (\<lambda>l e. e \<noteq> []
       \<and> (\<exists>ds rest. strip l = ds @ CHR ''.'' # rest \<and> ds \<noteq> [] \<and> list_all ascii_digit ds
             \<and> e = strip rest))
     (filter numbered ls) (map (\<lambda>l. item_text (strip l)) (filter numbered ls))"
proof (induction ls)
  case Nil
  then show ?case by simp
next
  case (Cons l ls)
  then show ?case using wellformed_numbered_line [of l] by auto
qed

text \<open>
  C3, as the code has it. When the model answers with a well-formed numbered list,
  \<open>generate_progress_steps\<close> returns one entry for each numbered line, in order: the text
  that follows the marker of the line, stripped, which is not empty. The marker of the
  line is removed once, so a text that itself begins with digits and a full stop keeps
  them. Nothing cuts the list at \<open>max_steps\<close>: it has as many entries as the response has
  numbered lines, hence at most \<open>max_steps\<close> (6 by default) when the response has at most
  that many.
\<close>

theorem generate_progress_steps_wellformed:
  assumes "generate_content ''gemini-2.5-flash'' (system_prompt prompt max_steps) = Inr text"
    and "wellformed_response text"
  shows "\<exists>steps. generate_progress_steps generate_content prompt max_steps = Inr steps
           \<and> length steps = length (numbered_lines text)
           \<and> list_all2 (\<lambda>l e. e \<noteq> []
               \<and> (\<exists>ds rest. strip l = ds @ CHR ''.'' # rest \<and> ds \<noteq> []
                     \<and> list_all ascii_digit ds \<and> e = strip rest))
               (numbered_lines text) steps
           \<and> (int (length (numbered_lines text)) \<le> max_steps \<longrightarrow> int (length steps) \<le> max_steps)"
  using assms collect_steps_wellformed [of "splitlines text" "[]"]
    wellformed_entries [of "splitlines text"]
  by (simp add: generate_progress_steps_def parse_response_def wellformed_response_def
      numbered_lines_def)

text \<open>
  A response of two numbered lines gives the two texts; the second text begins with
  \<open>3.\<close>, which is not the marker of its line.
\<close>

theorem generate_progress_steps_wellformed_witness:
  "reply ''1. Open the browser\<newline>2. 3.5 GHz is selected'' ''gemini-2.5-flash''
      (system_prompt ''pick a laptop'' 6) = Inr ''1. Open the browser\<newline>2. 3.5 GHz is selected''
   \<and> wellformed_response ''1. Open the browser\<newline>2. 3.5 GHz is selected''
   \<and> numbered_lines ''1. Open the browser\<newline>2. 3.5 GHz is selected''
       = [''1. Open the browser'', ''2. 3.5 GHz is selected'']
   \<and> generate_progress_steps (reply ''1. Open the browser\<newline>2. 3.5 GHz is selected'')
        ''pick a laptop'' 6 = Inr [''Open the browser'', ''3.5 GHz is selected'']
   \<and> (\<exists>steps. generate_progress_steps (reply ''1. Open the browser\<newline>2. 3.5 GHz is selected'')
          ''pick a laptop'' 6 = Inr steps \<and> length steps = 2 \<and> int (length steps) \<le> 6)"
proof -
  let ?t = "''1. Open the browser\<newline>2. 3.5 GHz is selected''"
  have h1: "reply ?t ''gemini-2.5-flash'' (system_prompt ''pick a laptop'' 6) = Inr ?t"
    by (simp add: reply_def)
  have h2: "wellformed_response ?t" by code_simp
  have n: "numbered_lines ?t = [''1. Open the browser'', ''2. 3.5 GHz is selected'']"
    by code_simp
  have v: "generate_progress_steps (reply ?t) ''pick a laptop'' 6
      = Inr [''Open the browser'', ''3.5 GHz is selected'']" by code_simp
  from generate_progress_steps_wellformed
    [of "reply ?t" "''pick a laptop''" 6 ?t, OF h1 h2]
  have "\<exists>steps. generate_progress_steps (reply ?t) ''pick a laptop'' 6 = Inr steps
      \<and> length steps = 2 \<and> int (length steps) \<le> 6"
    by (auto simp: n)
  with h1 h2 n v show ?thesis by blast
qed

text \<open>
  C3, as stated, fails: a well-formed numbered list of seven lines gives seven entries
  with \<open>max_steps = 6\<close>.
\<close>

theorem seven_steps_counterexample:
  "wellformed_response ''1. a\<newline>2. b\<newline>3. c\<newline>4. d\<newline>5. e\<newline>6. f\<newline>7. g''
   \<and> generate_progress_steps (reply ''1. a\<newline>2. b\<newline>3. c\<newline>4. d\<newline>5. e\<newline>6. f\<newline>7. g'')
        ''book a flight'' 6 = Inr [''a'', ''b'', ''c'', ''d'', ''e'', ''f'', ''g'']
   \<and> \<not> length [''a'', ''b'', ''c'', ''d'', ''e'', ''f'', ''g''] \<le> 6"
  by code_simp

text \<open>
  C4: the parsing raises on a line that begins with a digit and has no full stop. The
  response \<open>1) Open the browser\<close> passes the test of line 32, \<open>split(".", 1)\<close> returns a
  list of one element, and the index 1 raises IndexError.
\<close>

theorem unpunctuated_line_raises:
  "generate_progress_steps (reply ''1) Open the browser'') ''book a flight'' 6 = Inl IndexError"
  by code_simp

section \<open>Properties of the Zapier MCP configuration\<close>

lemma dict_get_update: "dict_get (AList.update k v d) k dflt = v"
  by (simp add: dict_get_def update_conv')

lemma without_update: "without k (AList.update k v d) = without k d"
  by (induction d) (auto simp: without_def)

lemma set_zapier_conforming:
  assumes "map_of d ''mcpServers'' = Some (JObj servers)"
  shows "set_zapier (JObj d) url =
    Inr (JObj (AList.update ''mcpServers''
      (JObj (AList.update ''zapier'' (JObj [(''url'', JStr url)]) servers)) d))"
  using assms by (simp add: set_zapier_def)

lemma get_after_set:
  "get_zapier_mcp (Holds (JObj (AList.update ''mcpServers''
      (JObj (AList.update ''zapier'' (JObj [(''url'', JStr url)]) servers)) d)))
   = Inr (JObj [(''url'', JStr url)])"
  by (simp add: get_zapier_mcp_def dict_get_update) (simp add: dict_get_def)

lemma load_conforming:
  assumes "conforming file"
  obtains d servers where "load_config file = Inr (JObj d)"
    "map_of d ''mcpServers'' = Some (JObj servers)"
proof (cases "file")
  case NoFile
  then show ?thesis using that [of "[(''mcpServers'', JObj [])]" "[]"]
    by (simp add: load_config_def)
next
  case (Garbled raw)
  with assms show ?thesis by simp
next
  case (Holds config)
  with assms obtain d where c: "config = JObj d" by (cases config) auto
  with assms Holds obtain servers where "map_of d ''mcpServers'' = Some (JObj servers)"
    by (auto split: option.splits json.splits)
  with c Holds that show ?thesis by (simp add: load_config_def)
qed

text \<open>
  Where the round trip holds. For a URL with the required prefix, when the configuration
  file is absent or holds a dict with a dict under \<open>mcpServers\<close>, the POST handler answers
  \<open>{"status": "success", "url": url}\<close>, the GET handler then returns exactly that URL, and
  the file written has that layout again.
\<close>

theorem set_then_get_zapier_mcp:
  assumes "startswith url zapier_prefix"
    and "dict_get payload ''url'' (JStr []) = JStr url"
    and "conforming file"
  shows "fst (update_zapier_mcp payload file)
           = Inr (JObj [(''status'', JStr ''success''), (''url'', JStr url)])
       \<and> get_zapier_mcp (snd (update_zapier_mcp payload file)) = Inr (JObj [(''url'', JStr url)])
       \<and> conforming (snd (update_zapier_mcp payload file))"
proof -
  from assms(3) obtain d servers where l: "load_config file = Inr (JObj d)"
    and m: "map_of d ''mcpServers'' = Some (JObj servers)"
    by (rule load_conforming)
  let ?d' = "AList.update ''mcpServers''
      (JObj (AList.update ''zapier'' (JObj [(''url'', JStr url)]) servers)) d"
  have u: "update_zapier_mcp payload file =
      (Inr (JObj [(''status'', JStr ''success''), (''url'', JStr url)]), Holds (JObj ?d'))"
    using assms(1,2) l set_zapier_conforming [OF m]
    by (simp add: update_zapier_mcp_def)
  have "conforming (Holds (JObj ?d'))" by (simp add: update_conv')
  with u get_after_set show ?thesis by simp
qed

text \<open>With no file yet, the POST writes the default document with the new entry.\<close>

theorem set_then_get_zapier_mcp_witness:
  "startswith ''https://actions.zapier.com/mcp/xyz'' zapier_prefix
   \<and> dict_get [(''url'', JStr ''https://actions.zapier.com/mcp/xyz'')] ''url'' (JStr [])
       = JStr ''https://actions.zapier.com/mcp/xyz''
   \<and> conforming NoFile
   \<and> update_zapier_mcp [(''url'', JStr ''https://actions.zapier.com/mcp/xyz'')] NoFile
       = (Inr (JObj [(''status'', JStr ''success''),
                     (''url'', JStr ''https://actions.zapier.com/mcp/xyz'')]),
          Holds (JObj [(''mcpServers'',
            JObj [(''zapier'', JObj [(''url'', JStr ''https://actions.zapier.com/mcp/xyz'')])])]))
   \<and> get_zapier_mcp (snd (update_zapier_mcp
         [(''url'', JStr ''https://actions.zapier.com/mcp/xyz'')] NoFile))
       = Inr (JObj [(''url'', JStr ''https://actions.zapier.com/mcp/xyz'')])"
proof -
  let ?u = "''https://actions.zapier.com/mcp/xyz''"
  have h1: "startswith ?u zapier_prefix" by (simp add: startswith_def zapier_prefix_def)
  have h2: "dict_get [(''url'', JStr ?u)] ''url'' (JStr []) = JStr ?u"
    by (simp add: dict_get_def)
  have h3: "conforming NoFile" by simp
  have v: "update_zapier_mcp [(''url'', JStr ?u)] NoFile
       = (Inr (JObj [(''status'', JStr ''success''), (''url'', JStr ?u)]),
          Holds (JObj [(''mcpServers'', JObj [(''zapier'', JObj [(''url'', JStr ?u)])])]))"
    by code_simp
  from set_then_get_zapier_mcp [OF h1 h2 h3] h1 h2 h3 v show ?thesis by simp
qed

text \<open>
  C1: the round trip is broken on an existing document without \<open>mcpServers\<close>. With a URL
  that has the required prefix and the file holding \<open>{}\<close>, line 153 raises KeyError,
  nothing is written, and the GET handler returns the empty URL and not the URL posted.
  The GET handler reads the same document without error (\<open>.get("mcpServers", {})\<close>), and
  line 152 supplies \<open>{"mcpServers": {}}\<close> when there is no file: only the existing document
  without the key is not provided for.
\<close>

theorem update_zapier_mcp_document_without_servers:
  "startswith ''https://actions.zapier.com/mcp/xyz'' zapier_prefix
   \<and> update_zapier_mcp [(''url'', JStr ''https://actions.zapier.com/mcp/xyz'')] (Holds (JObj []))
       = (Inl (KeyError ''mcpServers''), Holds (JObj []))
   \<and> get_zapier_mcp (Holds (JObj [])) = Inr (JObj [(''url'', JStr [])])"
  by code_simp

text \<open>
  C2. For every URL string that does not start with the required prefix (\<open>url\<close> is the
  value of line 147, the empty string when the payload has no \<open>url\<close>), the POST handler
  raises the HTTP error 400 and leaves the file as it was, whatever the file holds.
\<close>

theorem update_zapier_mcp_rejects:
  assumes "dict_get payload ''url'' (JStr []) = JStr url"
    and "\<not> startswith url zapier_prefix"
  shows "update_zapier_mcp payload file
           = (Inl (HTTPException 400 ''Invalid Zapier URL format''), file)"
  using assms by (simp add: update_zapier_mcp_def)

text \<open>The URL \<open>http://evil.com\<close> is refused and the earlier configuration stays.\<close>

theorem update_zapier_mcp_rejects_witness:
  "dict_get [(''url'', JStr ''http://evil.com'')] ''url'' (JStr []) = JStr ''http://evil.com''
   \<and> \<not> startswith ''http://evil.com'' zapier_prefix
   \<and> update_zapier_mcp [(''url'', JStr ''http://evil.com'')]
        (Holds (JObj [(''mcpServers'',
           JObj [(''zapier'', JObj [(''url'', JStr ''https://actions.zapier.com/mcp/old'')])])]))
       = (Inl (HTTPException 400 ''Invalid Zapier URL format''),
          Holds (JObj [(''mcpServers'',
           JObj [(''zapier'', JObj [(''url'', JStr ''https://actions.zapier.com/mcp/old'')])])]))"
proof -
  have h1: "dict_get [(''url'', JStr ''http://evil.com'')] ''url'' (JStr [])
      = JStr ''http://evil.com''"
    by (simp add: dict_get_def)
  have h2: "\<not> startswith ''http://evil.com'' zapier_prefix"
    by (simp add: startswith_def zapier_prefix_def)
  from update_zapier_mcp_rejects [OF h1 h2] h1 h2 show ?thesis by simp
qed

lemma set_zapier_frame:
  assumes "set_zapier config url = Inr config'"
  shows "\<exists>d d' servers servers'.
           config = JObj d \<and> config' = JObj d'
         \<and> map_of d ''mcpServers'' = Some (JObj servers)
         \<and> map_of d' ''mcpServers'' = Some (JObj servers')
         \<and> map_of servers' ''zapier'' = Some (JObj [(''url'', JStr url)])
         \<and> without ''zapier'' servers' = without ''zapier'' servers
         \<and> without ''mcpServers'' d' = without ''mcpServers'' d
         \<and> map fst d' = map fst d"
proof -
  from assms obtain d where c: "config = JObj d"
    by (cases config) (auto simp: set_zapier_def)
  from assms c obtain sv where m: "map_of d ''mcpServers'' = Some sv"
    by (auto simp: set_zapier_def split: option.splits)
  from assms c m obtain servers where s: "sv = JObj servers"
    by (cases sv) (auto simp: set_zapier_def)
  let ?s' = "AList.update ''zapier'' (JObj [(''url'', JStr url)]) servers"
  let ?d' = "AList.update ''mcpServers'' (JObj ?s') d"
  from assms c m s have c': "config' = JObj ?d'" by (simp add: set_zapier_def)
  from m have "''mcpServers'' \<in> fst ` set d"
    by (metis domI dom_map_of_conv_image_fst)
  then have k: "map fst ?d' = map fst d"
    by (simp add: update_keys)
  show ?thesis using c c' m s k
    by (auto simp: update_conv' without_update)
qed

text \<open>
  C8. When the POST handler succeeds on an existing document, the document was a dict
  with a dict under \<open>mcpServers\<close>, and the document written differs from it in the
  \<open>zapier\<close> entry only: the items of \<open>mcpServers\<close> under every other key, and the items of
  the document under every key but \<open>mcpServers\<close>, are the same and in the same order, and
  the document has the same keys in the same order.
\<close>

theorem update_zapier_mcp_frame:
  assumes "update_zapier_mcp payload (Holds config) = (Inr response, file')"
  shows "\<exists>d d' servers servers'.
           config = JObj d \<and> file' = Holds (JObj d')
         \<and> map_of d ''mcpServers'' = Some (JObj servers)
         \<and> map_of d' ''mcpServers'' = Some (JObj servers')
         \<and> without ''zapier'' servers' = without ''zapier'' servers
         \<and> without ''mcpServers'' d' = without ''mcpServers'' d
         \<and> map fst d' = map fst d"
proof -
  from assms obtain url config' where "set_zapier config url = Inr config'"
    and "file' = Holds config'"
    by (auto simp: update_zapier_mcp_def load_config_def
        split: json.splits if_splits sum.splits)
  with set_zapier_frame [of config url config'] show ?thesis by blast
qed

text \<open>
  A document with a \<open>theme\<close> key and a \<open>browser\<close> server keeps both when the URL of
  \<open>zapier\<close> is replaced.
\<close>

theorem update_zapier_mcp_frame_witness:
  "update_zapier_mcp [(''url'', JStr ''https://actions.zapier.com/mcp/new'')]
     (Holds (JObj [(''theme'', JStr ''dark''),
        (''mcpServers'',
           JObj [(''zapier'', JObj [(''url'', JStr ''https://actions.zapier.com/mcp/old'')]),
                 (''browser'', JObj [(''command'', JStr ''npx'')])])]))
   = (Inr (JObj [(''status'', JStr ''success''),
                 (''url'', JStr ''https://actions.zapier.com/mcp/new'')]),
      Holds (JObj [(''theme'', JStr ''dark''),
        (''mcpServers'',
           JObj [(''zapier'', JObj [(''url'', JStr ''https://actions.zapier.com/mcp/new'')]),
                 (''browser'', JObj [(''command'', JStr ''npx'')])])]))
   \<and> (\<exists>d d' servers servers'.
         JObj [(''theme'', JStr ''dark''),
           (''mcpServers'',
              JObj [(''zapier'', JObj [(''url'', JStr ''https://actions.zapier.com/mcp/old'')]),
                    (''browser'', JObj [(''command'', JStr ''npx'')])])] = JObj d
       \<and> Holds (JObj [(''theme'', JStr ''dark''),
           (''mcpServers'',
              JObj [(''zapier'', JObj [(''url'', JStr ''https://actions.zapier.com/mcp/new'')]),
                    (''browser'', JObj [(''command'', JStr ''npx'')])])]) = Holds (JObj d')
       \<and> map_of d ''mcpServers'' = Some (JObj servers)
       \<and> map_of d' ''mcpServers'' = Some (JObj servers')
       \<and> without ''zapier'' servers' = without ''zapier'' servers
       \<and> without ''mcpServers'' d' = without ''mcpServers'' d
       \<and> map fst d' = map fst d)"
proof -
  let ?p = "[(''url'', JStr ''https://actions.zapier.com/mcp/new'')]"
  let ?c = "JObj [(''theme'', JStr ''dark''),
        (''mcpServers'',
           JObj [(''zapier'', JObj [(''url'', JStr ''https://actions.zapier.com/mcp/old'')]),
                 (''browser'', JObj [(''command'', JStr ''npx'')])])]"
  let ?r = "JObj [(''status'', JStr ''success''),
                 (''url'', JStr ''https://actions.zapier.com/mcp/new'')]"
  let ?f = "Holds (JObj [(''theme'', JStr ''dark''),
        (''mcpServers'',
           JObj [(''zapier'', JObj [(''url'', JStr ''https://actions.zapier.com/mcp/new'')]),
                 (''browser'', JObj [(''command'', JStr ''npx'')])])])"
  have h: "update_zapier_mcp ?p (Holds ?c) = (Inr ?r, ?f)" by code_simp
  from update_zapier_mcp_frame [OF h] have "\<exists>d d' servers servers'.
       ?c = JObj d \<and> ?f = Holds (JObj d')
       \<and> map_of d ''mcpServers'' = Some (JObj servers)
       \<and> map_of d' ''mcpServers'' = Some (JObj servers')
       \<and> without ''zapier'' servers' = without ''zapier'' servers
       \<and> without ''mcpServers'' d' = without ''mcpServers'' d
       \<and> map fst d' = map fst d" .
  with h show ?thesis by (rule conjI)
qed

section \<open>Properties of the agent tasks\<close>

lemma create_agent_task_invalid:
  assumes "\<not> truthy (dict_get payload ''name'' JNull) \<or> \<not> truthy (dict_get payload ''task'' JNull)"
  shows "create_agent_task payload utc_ms current_timestamp tasks
           = (Inl (HTTPException 400 ''Name and task are required''), tasks)"
  using assms by (auto simp: create_agent_task_def Let_def)

text \<open>
  C5. For every payload without the \<open>name\<close> field or without the \<open>task\<close> field, the POST
  handler raises the HTTP error 400 and the table is as it was: no row is inserted.
\<close>

theorem create_agent_task_missing_field:
  assumes "map_of payload ''name'' = None \<or> map_of payload ''task'' = None"
  shows "create_agent_task payload utc_ms current_timestamp tasks
           = (Inl (HTTPException 400 ''Name and task are required''), tasks)"
  using assms by (intro create_agent_task_invalid) (auto simp: dict_get_def)

text \<open>A payload with a name and no task is refused.\<close>

theorem create_agent_task_missing_field_witness:
  "(map_of [(''name'', JStr ''t1'')] ''name'' = None \<or> map_of [(''name'', JStr ''t1'')] ''task'' = None)
   \<and> create_agent_task [(''name'', JStr ''t1'')] 1730000000123 1730000000 []
       = (Inl (HTTPException 400 ''Name and task are required''), [])"
proof -
  have h: "map_of [(''name'', JStr ''t1'')] ''name'' = None
      \<or> map_of [(''name'', JStr ''t1'')] ''task'' = None" by simp
  from create_agent_task_missing_field [OF h] h show ?thesis by simp
qed

text \<open>The values that \<open>not\<close> takes for false.\<close>

lemma falsy_values:
  "(\<not> truthy v) = (v = JNull \<or> v = JBool False \<or> v = JInt 0 \<or> (\<exists>s e. v = JFloat (Finite s 0 e))
      \<or> v = JStr [] \<or> v = JArr [] \<or> v = JObj [])"
  by (cases v rule: truthy.cases) auto

text \<open>
  C10. For every payload whose \<open>name\<close> or \<open>task\<close> field is present with a value that
  Python takes for false (the empty string among them), the POST handler raises the HTTP
  error 400 as well and the table is as it was.
\<close>

theorem create_agent_task_falsy_field:
  assumes "k = ''name'' \<or> k = ''task''"
    and "map_of payload k = Some v"
    and "\<not> truthy v"
  shows "create_agent_task payload utc_ms current_timestamp tasks
           = (Inl (HTTPException 400 ''Name and task are required''), tasks)"
  using assms by (intro create_agent_task_invalid) (auto simp: dict_get_def)

text \<open>A payload with both fields present, the name being the empty string, is refused.\<close>

theorem create_agent_task_falsy_field_witness:
  "(''name'' = ''name'' \<or> ''name'' = ''task'')
   \<and> map_of [(''name'', JStr []), (''task'', JStr ''scrape prices'')] ''name'' = Some (JStr [])
   \<and> \<not> truthy (JStr [])
   \<and> map_of [(''name'', JStr []), (''task'', JStr ''scrape prices'')] ''task''
       = Some (JStr ''scrape prices'')
   \<and> create_agent_task [(''name'', JStr []), (''task'', JStr ''scrape prices'')]
        1730000000123 1730000000 []
       = (Inl (HTTPException 400 ''Name and task are required''), [])"
proof -
  let ?p = "[(''name'', JStr []), (''task'', JStr ''scrape prices'')]"
  have h1: "''name'' = ''name'' \<or> ''name'' = ''task''" by simp
  have h2: "map_of ?p ''name'' = Some (JStr [])" by simp
  have h3: "\<not> truthy (JStr [])" by simp
  from create_agent_task_falsy_field [OF h1 h2 h3] h1 h2 h3 show ?thesis by simp
qed

lemma create_agent_task_success:
  assumes "create_agent_task payload utc_ms current_timestamp tasks = (Inr response, tasks')"
  shows "response = JObj [(''id'', JStr (new_task_id utc_ms)), (''status'', JStr ''created'')]
       \<and> new_task_id utc_ms \<notin> set (map task_id tasks)
       \<and> (\<exists>row. tasks' = tasks @ [row] \<and> task_id row = new_task_id utc_ms
                 \<and> created_at row = current_timestamp)"
  using assms
  by (auto simp: create_agent_task_def insert_agent_task_def Let_def
      split: if_splits sum.splits)

lemma startswith_task: "startswith (new_task_id utc_ms) ''task_''"
  by (simp add: startswith_def new_task_id_def)

text \<open>A row later than every other row comes first in every listing.\<close>

lemma latest_first:
  assumes "get_agent_tasks (tasks @ [row]) out"
    and "\<forall>r\<in>set tasks. created_at r < created_at row"
  shows "out \<noteq> [] \<and> hd out = row"
proof -
  from assms(1) have m: "mset out = mset (tasks @ [row])"
    and s: "sorted_wrt (\<lambda>a b. created_at b \<le> created_at a) out"
    by (simp_all add: get_agent_tasks_def)
  from m have st: "set out = set (tasks @ [row])" by (rule mset_eq_setD)
  then have ne: "out \<noteq> []" by auto
  then obtain x xs where out: "out = x # xs" by (cases out) auto
  have "x = row"
  proof (rule ccontr)
    assume nx: "x \<noteq> row"
    with st out have "x \<in> set tasks" by auto
    with assms(2) have lt: "created_at x < created_at row" by blast
    from st out nx have "row \<in> set xs" by auto
    with s out have "created_at row \<le> created_at x" by auto
    with lt show False by simp
  qed
  with ne out show ?thesis by simp
qed

text \<open>The query always has a listing to return.\<close>

lemma get_agent_tasks_total: "get_agent_tasks tasks (rev (sort_key created_at tasks))"
proof -
  have "sorted (map created_at (sort_key created_at tasks))" by (rule sorted_sort_key)
  then have "sorted_wrt (\<lambda>a b. created_at a \<le> created_at b) (sort_key created_at tasks)"
    by (simp only: sorted_map)
  then have "sorted_wrt (\<lambda>a b. created_at b \<le> created_at a) (rev (sort_key created_at tasks))"
    by (simp only: sorted_wrt_rev)
  then show ?thesis by (simp add: get_agent_tasks_def)
qed

text \<open>
  C6, as the code has it. When the id made from the clock is not yet in the table and
  every stored task has a \<open>created_at\<close> earlier than the second of the insertion, posting
  \<open>{"name": "t1", "task": "scrape prices"}\<close> returns a body whose \<open>id\<close> starts with
  \<open>task_\<close> and whose \<open>status\<close> is \<open>created\<close>, and every listing that the GET handler may
  then return has the new task first.
\<close>

theorem create_then_list_agent_tasks:
  assumes "new_task_id utc_ms \<notin> set (map task_id tasks)"
    and "\<forall>r\<in>set tasks. created_at r < current_timestamp"
    and "get_agent_tasks
           (snd (create_agent_task [(''name'', JStr ''t1''), (''task'', JStr ''scrape prices'')]
                   utc_ms current_timestamp tasks)) out"
  shows "fst (create_agent_task [(''name'', JStr ''t1''), (''task'', JStr ''scrape prices'')]
                utc_ms current_timestamp tasks)
           = Inr (JObj [(''id'', JStr (new_task_id utc_ms)), (''status'', JStr ''created'')])
       \<and> startswith (new_task_id utc_ms) ''task_''
       \<and> out \<noteq> []
       \<and> hd out = \<lparr>task_id = new_task_id utc_ms, task_name = SqlText ''t1'',
                    description = SqlNull, task = SqlText ''scrape prices'',
                    created_at = current_timestamp, last_result = SqlNull\<rparr>"
proof -
  let ?row = "\<lparr>task_id = new_task_id utc_ms, task_name = SqlText ''t1'',
                description = SqlNull, task = SqlText ''scrape prices'',
                created_at = current_timestamp, last_result = SqlNull\<rparr>"
  have c: "create_agent_task [(''name'', JStr ''t1''), (''task'', JStr ''scrape prices'')]
             utc_ms current_timestamp tasks
           = (Inr (JObj [(''id'', JStr (new_task_id utc_ms)), (''status'', JStr ''created'')]),
              tasks @ [?row])"
    using assms(1)
    by (simp add: create_agent_task_def insert_agent_task_def dict_get_def Let_def)
  with assms(3) have "get_agent_tasks (tasks @ [?row]) out" by simp
  moreover from assms(2) have "\<forall>r\<in>set tasks. created_at r < created_at ?row" by simp
  ultimately have "out \<noteq> [] \<and> hd out = ?row" by (rule latest_first)
  with c startswith_task show ?thesis by simp
qed

text \<open>A task stored two seconds earlier comes second in the listing.\<close>

theorem create_then_list_agent_tasks_witness:
  "new_task_id 1730000002000 \<notin> set (map task_id
       [\<lparr>task_id = ''task_1730000000500'', task_name = SqlText ''t0'', description = SqlNull,
         task = SqlText ''check mail'', created_at = 1730000000, last_result = SqlNull\<rparr>])
   \<and> created_at \<lparr>task_id = ''task_1730000000500'', task_name = SqlText ''t0'',
         description = SqlNull, task = SqlText ''check mail'', created_at = 1730000000,
         last_result = SqlNull\<rparr> < 1730000002
   \<and> get_agent_tasks
        (snd (create_agent_task [(''name'', JStr ''t1''), (''task'', JStr ''scrape prices'')]
           1730000002000 1730000002
           [\<lparr>task_id = ''task_1730000000500'', task_name = SqlText ''t0'', description = SqlNull,
             task = SqlText ''check mail'', created_at = 1730000000, last_result = SqlNull\<rparr>]))
        [\<lparr>task_id = ''task_1730000002000'', task_name = SqlText ''t1'', description = SqlNull,
          task = SqlText ''scrape prices'', created_at = 1730000002, last_result = SqlNull\<rparr>,
         \<lparr>task_id = ''task_1730000000500'', task_name = SqlText ''t0'', description = SqlNull,
          task = SqlText ''check mail'', created_at = 1730000000, last_result = SqlNull\<rparr>]
   \<and> fst (create_agent_task [(''name'', JStr ''t1''), (''task'', JStr ''scrape prices'')]
           1730000002000 1730000002
           [\<lparr>task_id = ''task_1730000000500'', task_name = SqlText ''t0'', description = SqlNull,
             task = SqlText ''check mail'', created_at = 1730000000, last_result = SqlNull\<rparr>])
       = Inr (JObj [(''id'', JStr ''task_1730000002000''), (''status'', JStr ''created'')])"
proof -
  let ?old = "\<lparr>task_id = ''task_1730000000500'', task_name = SqlText ''t0'',
      description = SqlNull, task = SqlText ''check mail'', created_at = 1730000000,
      last_result = SqlNull\<rparr>"
  let ?new = "\<lparr>task_id = ''task_1730000002000'', task_name = SqlText ''t1'',
      description = SqlNull, task = SqlText ''scrape prices'', created_at = 1730000002,
      last_result = SqlNull\<rparr>"
  let ?p = "[(''name'', JStr ''t1''), (''task'', JStr ''scrape prices'')]"
  have n: "new_task_id 1730000002000 = ''task_1730000002000''"
    by (simp add: new_task_id_def str_int_def)
  have h1: "new_task_id 1730000002000 \<notin> set (map task_id [?old])" by (simp add: n)
  have h2: "\<forall>r\<in>set [?old]. created_at r < 1730000002" by simp
  have c: "create_agent_task ?p 1730000002000 1730000002 [?old]
      = (Inr (JObj [(''id'', JStr ''task_1730000002000''), (''status'', JStr ''created'')]),
         [?old, ?new])"
    by (simp add: create_agent_task_def insert_agent_task_def dict_get_def Let_def n)
  have h3: "get_agent_tasks (snd (create_agent_task ?p 1730000002000 1730000002 [?old]))
      [?new, ?old]"
    by (simp add: c get_agent_tasks_def)
  from create_then_list_agent_tasks [OF h1 h2 h3] h1 h2 h3 n show ?thesis by simp
qed

text \<open>
  C6, as stated, fails when a task was stored in the same second: the POST succeeds, both
  rows have the same \<open>created_at\<close>, and the listing with the older task first is one the
  query may return.
\<close>

theorem same_second_counterexample:
  "create_agent_task [(''name'', JStr ''t1''), (''task'', JStr ''scrape prices'')]
      1730000002900 1730000002
      [\<lparr>task_id = ''task_1730000002100'', task_name = SqlText ''t0'', description = SqlNull,
        task = SqlText ''check mail'', created_at = 1730000002, last_result = SqlNull\<rparr>]
    = (Inr (JObj [(''id'', JStr ''task_1730000002900''), (''status'', JStr ''created'')]),
       [\<lparr>task_id = ''task_1730000002100'', task_name = SqlText ''t0'', description = SqlNull,
         task = SqlText ''check mail'', created_at = 1730000002, last_result = SqlNull\<rparr>,
        \<lparr>task_id = ''task_1730000002900'', task_name = SqlText ''t1'', description = SqlNull,
         task = SqlText ''scrape prices'', created_at = 1730000002, last_result = SqlNull\<rparr>])
   \<and> get_agent_tasks
       [\<lparr>task_id = ''task_1730000002100'', task_name = SqlText ''t0'', description = SqlNull,
         task = SqlText ''check mail'', created_at = 1730000002, last_result = SqlNull\<rparr>,
        \<lparr>task_id = ''task_1730000002900'', task_name = SqlText ''t1'', description = SqlNull,
         task = SqlText ''scrape prices'', created_at = 1730000002, last_result = SqlNull\<rparr>]
       [\<lparr>task_id = ''task_1730000002100'', task_name = SqlText ''t0'', description = SqlNull,
         task = SqlText ''check mail'', created_at = 1730000002, last_result = SqlNull\<rparr>,
        \<lparr>task_id = ''task_1730000002900'', task_name = SqlText ''t1'', description = SqlNull,
         task = SqlText ''scrape prices'', created_at = 1730000002, last_result = SqlNull\<rparr>]
   \<and> task_id (hd
       [\<lparr>task_id = ''task_1730000002100'', task_name = SqlText ''t0'', description = SqlNull,
         task = SqlText ''check mail'', created_at = 1730000002, last_result = SqlNull\<rparr>,
        \<lparr>task_id = ''task_1730000002900'', task_name = SqlText ''t1'', description = SqlNull,
         task = SqlText ''scrape prices'', created_at = 1730000002, last_result = SqlNull\<rparr>])
       \<noteq> ''task_1730000002900''"
  by (simp add: create_agent_task_def insert_agent_task_def dict_get_def Let_def
      new_task_id_def str_int_def get_agent_tasks_def)

text \<open>
  C7, as the code has it. Two calls that both succeed, the later one on a table that still
  holds the ids the earlier one left, return different ids: the primary key refuses an id
  that is already stored. The ids are made from different clock readings, so the later
  reading is the greater one whenever the clock has not gone back between the calls.
\<close>

theorem task_ids_distinct:
  assumes "create_agent_task payload1 utc_ms1 ts1 tasks = (Inr response1, tasks1)"
    and "set (map task_id tasks1) \<subseteq> set (map task_id tasks2)"
    and "create_agent_task payload2 utc_ms2 ts2 tasks2 = (Inr response2, tasks3)"
  shows "response1 = JObj [(''id'', JStr (new_task_id utc_ms1)), (''status'', JStr ''created'')]
       \<and> response2 = JObj [(''id'', JStr (new_task_id utc_ms2)), (''status'', JStr ''created'')]
       \<and> new_task_id utc_ms1 \<noteq> new_task_id utc_ms2
       \<and> utc_ms1 \<noteq> utc_ms2
       \<and> (utc_ms1 \<le> utc_ms2 \<longrightarrow> utc_ms1 < utc_ms2)"
proof -
  from create_agent_task_success [OF assms(1)] have
    r1: "response1 = JObj [(''id'', JStr (new_task_id utc_ms1)), (''status'', JStr ''created'')]"
    and ex: "\<exists>row. tasks1 = tasks @ [row] \<and> task_id row = new_task_id utc_ms1
                 \<and> created_at row = ts1"
    by simp_all
  then obtain row where "tasks1 = tasks @ [row]" and tid: "task_id row = new_task_id utc_ms1"
    by blast
  then have "new_task_id utc_ms1 \<in> set (map task_id tasks1)" by force
  note row = this
  from create_agent_task_success [OF assms(3)] have
    r2: "response2 = JObj [(''id'', JStr (new_task_id utc_ms2)), (''status'', JStr ''created'')]"
    and fresh: "new_task_id utc_ms2 \<notin> set (map task_id tasks2)"
    by auto
  from row assms(2) have "new_task_id utc_ms1 \<in> set (map task_id tasks2)" by blast
  with fresh have ne: "new_task_id utc_ms1 \<noteq> new_task_id utc_ms2" by auto
  then have "utc_ms1 \<noteq> utc_ms2" by auto
  with r1 r2 ne show ?thesis by simp
qed

text \<open>Two tasks created one second apart.\<close>

theorem task_ids_distinct_witness:
  "create_agent_task [(''name'', JStr ''t1''), (''task'', JStr ''scrape prices'')]
      1730000001000 1730000001 []
    = (Inr (JObj [(''id'', JStr ''task_1730000001000''), (''status'', JStr ''created'')]),
       [\<lparr>task_id = ''task_1730000001000'', task_name = SqlText ''t1'', description = SqlNull,
         task = SqlText ''scrape prices'', created_at = 1730000001, last_result = SqlNull\<rparr>])
   \<and> set (map task_id
         [\<lparr>task_id = ''task_1730000001000'', task_name = SqlText ''t1'', description = SqlNull,
           task = SqlText ''scrape prices'', created_at = 1730000001, last_result = SqlNull\<rparr>])
     \<subseteq> set (map task_id
         [\<lparr>task_id = ''task_1730000001000'', task_name = SqlText ''t1'', description = SqlNull,
           task = SqlText ''scrape prices'', created_at = 1730000001, last_result = SqlNull\<rparr>])
   \<and> create_agent_task [(''name'', JStr ''t2''), (''task'', JStr ''check mail'')]
      1730000002000 1730000002
      [\<lparr>task_id = ''task_1730000001000'', task_name = SqlText ''t1'', description = SqlNull,
         task = SqlText ''scrape prices'', created_at = 1730000001, last_result = SqlNull\<rparr>]
    = (Inr (JObj [(''id'', JStr ''task_1730000002000''), (''status'', JStr ''created'')]),
       [\<lparr>task_id = ''task_1730000001000'', task_name = SqlText ''t1'', description = SqlNull,
         task = SqlText ''scrape prices'', created_at = 1730000001, last_result = SqlNull\<rparr>,
        \<lparr>task_id = ''task_1730000002000'', task_name = SqlText ''t2'', description = SqlNull,
         task = SqlText ''check mail'', created_at = 1730000002, last_result = SqlNull\<rparr>])
   \<and> new_task_id 1730000001000 \<noteq> new_task_id 1730000002000
   \<and> (1730000001000 :: int) \<le> 1730000002000
   \<and> (1730000001000 :: int) < 1730000002000"
proof -
  let ?r1 = "\<lparr>task_id = ''task_1730000001000'', task_name = SqlText ''t1'',
      description = SqlNull, task = SqlText ''scrape prices'', created_at = 1730000001,
      last_result = SqlNull\<rparr>"
  let ?r2 = "\<lparr>task_id = ''task_1730000002000'', task_name = SqlText ''t2'',
      description = SqlNull, task = SqlText ''check mail'', created_at = 1730000002,
      last_result = SqlNull\<rparr>"
  have h1: "create_agent_task [(''name'', JStr ''t1''), (''task'', JStr ''scrape prices'')]
      1730000001000 1730000001 []
    = (Inr (JObj [(''id'', JStr ''task_1730000001000''), (''status'', JStr ''created'')]), [?r1])"
    by (simp add: create_agent_task_def insert_agent_task_def dict_get_def Let_def
        new_task_id_def str_int_def)
  have h2: "set (map task_id [?r1]) \<subseteq> set (map task_id [?r1])" by simp
  have h3: "create_agent_task [(''name'', JStr ''t2''), (''task'', JStr ''check mail'')]
      1730000002000 1730000002 [?r1]
    = (Inr (JObj [(''id'', JStr ''task_1730000002000''), (''status'', JStr ''created'')]),
       [?r1, ?r2])"
    by (simp add: create_agent_task_def insert_agent_task_def dict_get_def Let_def
        new_task_id_def str_int_def)
  from task_ids_distinct [OF h1 h2 h3] h1 h2 h3 show ?thesis by simp
qed

text \<open>
  C7, as stated, fails when the clock is set back between two calls: both succeed, and
  the id of the later task is smaller than the id of the earlier one, as a string and as a
  number.
\<close>

theorem clock_set_back_counterexample:
  "create_agent_task [(''name'', JStr ''t1''), (''task'', JStr ''scrape prices'')]
      1730000002000 1730000002 []
    = (Inr (JObj [(''id'', JStr ''task_1730000002000''), (''status'', JStr ''created'')]),
       [\<lparr>task_id = ''task_1730000002000'', task_name = SqlText ''t1'', description = SqlNull,
         task = SqlText ''scrape prices'', created_at = 1730000002, last_result = SqlNull\<rparr>])
   \<and> create_agent_task [(''name'', JStr ''t2''), (''task'', JStr ''check mail'')]
      1730000001000 1730000001
      [\<lparr>task_id = ''task_1730000002000'', task_name = SqlText ''t1'', description = SqlNull,
         task = SqlText ''scrape prices'', created_at = 1730000002, last_result = SqlNull\<rparr>]
    = (Inr (JObj [(''id'', JStr ''task_1730000001000''), (''status'', JStr ''created'')]),
       [\<lparr>task_id = ''task_1730000002000'', task_name = SqlText ''t1'', description = SqlNull,
         task = SqlText ''scrape prices'', created_at = 1730000002, last_result = SqlNull\<rparr>,
        \<lparr>task_id = ''task_1730000001000'', task_name = SqlText ''t2'', description = SqlNull,
         task = SqlText ''check mail'', created_at = 1730000001, last_result = SqlNull\<rparr>])
   \<and> \<not> ''task_1730000002000'' < ''task_1730000001000''
   \<and> \<not> (1730000002000 :: int) < 1730000001000"
proof -
  have "\<not> ''task_1730000002000'' < ''task_1730000001000''" by code_simp
  then show ?thesis
    by (simp add: create_agent_task_def insert_agent_task_def dict_get_def Let_def
        new_task_id_def str_int_def)
qed

section \<open>Properties of the periodic metrics logger\<close>

lemma periodic_metrics_logger_runs:
  "list_all caught ocs \<Longrightarrow>
   periodic_metrics_logger interval_seconds ocs st
     = Inr \<lparr>printed = printed st @ reports ocs,
            sleeps = sleeps st @ replicate (length ocs) interval_seconds\<rparr>"
proof (induction ocs arbitrary: st)
  case Nil
  then show ?case by simp
next
  case (Cons oc ocs)
  then show ?case
    by (cases oc) (simp_all add: logger_iteration_def replicate_app_Cons_same)
qed

text \<open>
  C9. Whatever the calls of \<open>log_system_metrics\<close> do, returning or raising an exception,
  the loop started by \<open>lifespan\<close> is still running after any number of them: every
  iteration has ended with a sleep of 60 seconds, and every exception raised has been
  printed, in order. (The exceptions are the instances of \<open>Exception\<close>, which line 69
  names.)
\<close>

theorem background_logger_never_stops:
  assumes "list_all caught ocs"
  shows "background_logger ocs
           = Inr \<lparr>printed = reports ocs, sleeps = replicate (length ocs) 60\<rparr>"
  using periodic_metrics_logger_runs [OF assms, of 60 "\<lparr>printed = [], sleeps = []\<rparr>"]
  by (simp add: background_logger_def)

text \<open>Three iterations, the second of which fails.\<close>

theorem background_logger_never_stops_witness:
  "list_all caught [Returns, Raises ''disk full'', Returns]
   \<and> background_logger [Returns, Raises ''disk full'', Returns]
       = Inr \<lparr>printed = [''[Periodic Logger] Error: disk full''], sleeps = [60, 60, 60]\<rparr>"
proof -
  have h: "list_all caught [Returns, Raises ''disk full'', Returns]" by simp
  have r: "reports [Returns, Raises ''disk full'', Returns]
      = [''[Periodic Logger] Error: disk full'']" by simp
  have n: "replicate (length [Returns, Raises ''disk full'', Returns]) (60::nat) = [60, 60, 60]"
    by (simp add: numeral_3_eq_3)
  from background_logger_never_stops [OF h] h r n show ?thesis by simp
qed

end
